theory Spec2Isabelle
  imports Complex_Main "HOL-Library.Sublist"
begin

section \<open>JavaScript values shared by the two tools\<close>

text \<open>
  A value that a JavaScript \<^verbatim>\<open>throw\<close> (or a rejected promise) carries. Both tools
  only ask whether it is an instance of \<^verbatim>\<open>Error\<close> and, if so, read its message.
\<close>

datatype js_thrown = ErrorObj string | NonError

text \<open>
  A key of a returned object literal is either missing or holds a value; a value that
  JavaScript allows to be \<^verbatim>\<open>null\<close> is an \<open>option\<close> below the field.
\<close>

datatype 'a field = Absent | Present 'a

section \<open>The code analysis tool (src/unnamed/part\_000)\<close>

subsection \<open>The call to \<^verbatim>\<open>spawnSync\<close> and what it gives back\<close>

record spawn_options =
  input :: string
  encoding :: string
  timeout :: nat
  maxBuffer :: nat

record spawn_error =
  err_code :: "string option"
  err_message :: string

record spawn_result =
  error :: "spawn_error option"
  status :: "int option"
  stdout :: "string option"
  stderr :: "string option"

datatype spawn_outcome = Returned spawn_result | Threw js_thrown

text \<open>
  The child process library is the environment: a function from the command, its
  arguments and the options to what the call does.
\<close>

type_synonym spawn_env = "string \<Rightarrow> string list \<Rightarrow> spawn_options \<Rightarrow> spawn_outcome"

record analyze_result =
  stdout_field :: "string option field"
  stderr_field :: "string option field"
  exitCode :: "int field"
  error_field :: "string field"

definition only_error :: "string \<Rightarrow> analyze_result" where
  "only_error msg =
     \<lparr>stdout_field = Absent, stderr_field = Absent, exitCode = Absent,
      error_field = Present msg\<rparr>"

text \<open>A result whose only key is \<^verbatim>\<open>error\<close>.\<close>

definition is_only_error :: "analyze_result \<Rightarrow> bool" where
  "is_only_error res =
     (stdout_field res = Absent \<and> stderr_field res = Absent \<and> exitCode res = Absent \<and>
      error_field res \<noteq> Absent)"

text \<open>Lines 61 to 70: the one call of the tool, with the script on standard input.\<close>

definition run_python :: "spawn_env \<Rightarrow> string \<Rightarrow> spawn_outcome" where
  "run_python spawnSync code =
     spawnSync ''python'' [''-c'', ''import sys; exec(sys.stdin.read())'']
       \<lparr>input = code, encoding = ''utf-8'', timeout = 10000,
        maxBuffer = 10 * 1024 * 1024\<rparr>"

text \<open>\<^verbatim>\<open>result.stderr || "Unknown error occurred"\<close>: null and the empty string are falsy.\<close>

definition stderr_or_default :: "string option \<Rightarrow> string" where
  "stderr_or_default s =
     (case s of None \<Rightarrow> ''Unknown error occurred''
      | Some t \<Rightarrow> if t = [] then ''Unknown error occurred'' else t)"

text \<open>\<^verbatim>\<open>result.status ?? d\<close>\<close>

definition status_or :: "int option \<Rightarrow> int \<Rightarrow> int" where
  "status_or s d = (case s of None \<Rightarrow> d | Some n \<Rightarrow> n)"

text \<open>Lines 73 to 94: the body of the \<^verbatim>\<open>try\<close> block after the call has returned.\<close>

definition analyze_returned :: "spawn_result \<Rightarrow> analyze_result" where
  "analyze_returned result =
     (case error result of
        Some err \<Rightarrow>
          if err_code err = Some ''ETIMEDOUT''
          then only_error ''Execution timed out (limit: 10 seconds)''
          else only_error (''Execution failed: '' @ err_message err)
      | None \<Rightarrow>
          if status result \<noteq> Some 0
          then \<lparr>stdout_field = Present (stdout result),
                stderr_field = Present (Some (stderr_or_default (stderr result))),
                exitCode = Present (status_or (status result) (- 1)),
                error_field = Present ''Python script exited with error''\<rparr>
          else \<lparr>stdout_field = Present (stdout result),
                stderr_field = Present (stderr result),
                exitCode = Present (status_or (status result) 0),
                error_field = Absent\<rparr>)"

text \<open>The \<^verbatim>\<open>try\<close> block: an exception of the call leaves it as \<open>Inl\<close>.\<close>

definition analyze_try :: "spawn_env \<Rightarrow> string \<Rightarrow> js_thrown + analyze_result" where
  "analyze_try spawnSync code =
     (case run_python spawnSync code of
        Threw e \<Rightarrow> Inl e
      | Returned result \<Rightarrow> Inr (analyze_returned result))"

text \<open>Lines 95 to 101: the \<^verbatim>\<open>catch\<close> block (its log line has no effect on the result).\<close>

definition analyze_catch :: "js_thrown \<Rightarrow> analyze_result" where
  "analyze_catch e =
     only_error (case e of ErrorObj m \<Rightarrow> m
                 | NonError \<Rightarrow> ''Analysis failed due to an unknown error'')"

text \<open>
  \<^verbatim>\<open>analyzeTool.execute\<close>. The result type keeps a place for an exception that would
  leave the function, so that "nothing is thrown" is a statement and not a typing fact.
\<close>

definition analyzeTool_execute :: "spawn_env \<Rightarrow> string \<Rightarrow> js_thrown + analyze_result" where
  "analyzeTool_execute spawnSync code =
     (case analyze_try spawnSync code of
        Inr r \<Rightarrow> Inr r
      | Inl e \<Rightarrow> Inr (analyze_catch e))"

subsection \<open>Kinds of outcome of the call\<close>

text \<open>
  Node reports a call that did not complete in \<^verbatim>\<open>result.error\<close>, with the code
  \<^verbatim>\<open>ETIMEDOUT\<close> when the time limit passed and \<^verbatim>\<open>ENOBUFS\<close> when the captured
  output passed \<^verbatim>\<open>maxBuffer\<close>; any other error is a process that could not be started
  (\<^verbatim>\<open>ENOENT\<close>, \<^verbatim>\<open>EACCES\<close>, ...).
\<close>

definition has_code :: "string \<Rightarrow> spawn_result \<Rightarrow> bool" where
  "has_code c r = (case error r of None \<Rightarrow> False | Some e \<Rightarrow> err_code e = Some c)"

definition timed_out :: "spawn_result \<Rightarrow> bool" where
  "timed_out r = has_code ''ETIMEDOUT'' r"

definition buffer_exceeded :: "spawn_result \<Rightarrow> bool" where
  "buffer_exceeded r = has_code ''ENOBUFS'' r"

definition could_not_start :: "spawn_result \<Rightarrow> bool" where
  "could_not_start r = (error r \<noteq> None \<and> \<not> timed_out r \<and> \<not> buffer_exceeded r)"

section \<open>The weather tool (src/lib/tools/weather.ts)\<close>

subsection \<open>Strings: numbers, joined lists and query strings\<close>

definition digit_char :: "nat \<Rightarrow> char" where
  "digit_char d = ''0123456789ABCDEF'' ! (d mod 16)"

text \<open>\<^verbatim>\<open>toString()\<close> of a JavaScript number that is an integer: its decimal digits.\<close>

fun string_of_nat :: "nat \<Rightarrow> string" where
  "string_of_nat n =
     (if n < 10 then [digit_char n]
      else string_of_nat (n div 10) @ [digit_char (n mod 10)])"

declare string_of_nat.simps [simp del]

definition string_of_int :: "int \<Rightarrow> string" where
  "string_of_int i =
     (if i < 0 then CHR ''-'' # string_of_nat (nat (- i)) else string_of_nat (nat i))"

text \<open>\<^verbatim>\<open>Array.prototype.join\<close>\<close>

fun array_join :: "string \<Rightarrow> string list \<Rightarrow> string" where
  "array_join sep [] = []"
| "array_join sep [x] = x"
| "array_join sep (x # y # ys) = x @ sep @ array_join sep (y # ys)"

text \<open>
  \<^verbatim>\<open>URLSearchParams.prototype.toString\<close>: the form-urlencoded serializer. A byte that is
  a letter, a digit or one of \<^verbatim>\<open>* - . _\<close> stands for itself, a space becomes \<^verbatim>\<open>+\<close>,
  any other byte is \<^verbatim>\<open>%\<close> and two upper-case hexadecimal digits.
\<close>

definition form_safe :: "char \<Rightarrow> bool" where
  "form_safe c =
     (let n = (of_char c :: nat) in
        (48 \<le> n \<and> n \<le> 57) \<or> (65 \<le> n \<and> n \<le> 90) \<or> (97 \<le> n \<and> n \<le> 122) \<or>
        n = 42 \<or> n = 45 \<or> n = 46 \<or> n = 95)"

definition urlencode_byte :: "char \<Rightarrow> string" where
  "urlencode_byte c =
     (if form_safe c then [c]
      else if c = CHR '' '' then ''+''
      else [CHR ''%'', digit_char (of_char c div 16), digit_char (of_char c mod 16)])"

definition urlencode :: "string \<Rightarrow> string" where
  "urlencode s = concat (map urlencode_byte s)"

definition URLSearchParams_toString :: "(string \<times> string) list \<Rightarrow> string" where
  "URLSearchParams_toString ps =
     array_join ''&'' (map (\<lambda>(k, v). urlencode k @ ''='' @ urlencode v) ps)"

subsection \<open>JSON values and the HTTP response\<close>

datatype json_value =
    JNull
  | JBool bool
  | JNum real
  | JStr string
  | JArr "json_value list"
  | JObj "(string \<times> json_value) list"

text \<open>
  \<^verbatim>\<open>data.key\<close> for one of the two keys the tool reads: reading a property of
  \<^verbatim>\<open>null\<close> throws a \<^verbatim>\<open>TypeError\<close> (the message is the engine's), an object gives the
  value of its last entry under the key, and every other value gives \<^verbatim>\<open>undefined\<close>.
\<close>

definition null_read_message :: "string \<Rightarrow> string" where
  "null_read_message k =
     ''Cannot read properties of null (reading '' @ [CHR 0x27] @ k @ [CHR 0x27] @ '')''"

fun get_property :: "json_value \<Rightarrow> string \<Rightarrow> js_thrown + json_value option" where
  "get_property JNull k = Inl (ErrorObj (null_read_message k))"
| "get_property (JObj kvs) k = Inr (map_of (rev kvs) k)"
| "get_property (JBool b) k = Inr None"
| "get_property (JNum x) k = Inr None"
| "get_property (JStr s) k = Inr None"
| "get_property (JArr xs) k = Inr None"

text \<open>\<^verbatim>\<open>v ?? null\<close>\<close>

definition or_null :: "json_value option \<Rightarrow> json_value" where
  "or_null v = (case v of None \<Rightarrow> JNull | Some x \<Rightarrow> x)"

datatype json_outcome = JsonParsed json_value | JsonRejected js_thrown

record response =
  http_status :: nat
  statusText :: string
  json :: json_outcome

text \<open>\<^verbatim>\<open>response.ok\<close>: the status is in the range 200 to 299.\<close>

definition ok :: "response \<Rightarrow> bool" where
  "ok r = (200 \<le> http_status r \<and> http_status r \<le> 299)"

datatype fetch_outcome = Responded response | FetchRejected js_thrown

text \<open>The network is the environment: a function from the URL of a GET to its outcome.\<close>

type_synonym fetch_env = "string \<Rightarrow> fetch_outcome"

subsection \<open>Arguments and result\<close>

definition DEFAULT_DAILY_VARS :: "string list" where
  "DEFAULT_DAILY_VARS =
     [''temperature_2m_max'', ''temperature_2m_min'', ''precipitation_sum'',
      ''windspeed_10m_max'', ''weathercode'']"

text \<open>
  The arguments of \<^verbatim>\<open>execute\<close>. The two optional ones can be \<^verbatim>\<open>undefined\<close>
  (\<open>None\<close>) when the function is called directly.
\<close>

record weather_args =
  latitude :: real
  longitude :: real
  forecast_days :: "int option"
  daily :: "string list option"

record weather_query =
  query_latitude :: real
  query_longitude :: real
  query_forecast_days :: int
  query_daily :: "string list"

datatype weather_result =
    Forecast string weather_query json_value json_value
  | WeatherError string

text \<open>The default of the destructured parameter: \<^verbatim>\<open>forecast_days = 3\<close> (line 88).\<close>

definition days_or_default :: "int option \<Rightarrow> int" where
  "days_or_default d = (case d of None \<Rightarrow> 3 | Some n \<Rightarrow> n)"

text \<open>Lines 91 to 94.\<close>

definition dailyVars :: "string list option \<Rightarrow> string list" where
  "dailyVars d =
     (case d of None \<Rightarrow> DEFAULT_DAILY_VARS
      | Some vs \<Rightarrow> if length vs > 0 then vs else DEFAULT_DAILY_VARS)"

text \<open>
  Lines 96 to 104. How the engine prints a floating-point number
  (\<^verbatim>\<open>Number.prototype.toString\<close>) is the parameter \<open>num\<close>.
\<close>

definition params :: "(real \<Rightarrow> string) \<Rightarrow> weather_args \<Rightarrow> (string \<times> string) list" where
  "params num a =
     [(''latitude'', num (latitude a)),
      (''longitude'', num (longitude a)),
      (''forecast_days'', string_of_int (days_or_default (forecast_days a))),
      (''timezone'', ''auto''),
      (''daily'', array_join '','' (dailyVars (daily a)))]"

definition url :: "(real \<Rightarrow> string) \<Rightarrow> weather_args \<Rightarrow> string" where
  "url num a =
     ''https://api.open-meteo.com/v1/forecast?'' @ URLSearchParams_toString (params num a)"

text \<open>The \<^verbatim>\<open>query\<close> object of lines 118 to 123.\<close>

definition query :: "weather_args \<Rightarrow> weather_query" where
  "query a =
     \<lparr>query_latitude = latitude a, query_longitude = longitude a,
      query_forecast_days = days_or_default (forecast_days a),
      query_daily = dailyVars (daily a)\<rparr>"

text \<open>Lines 116 to 126: the returned object, its properties evaluated in order.\<close>

definition reshape :: "weather_args \<Rightarrow> json_value \<Rightarrow> js_thrown + weather_result" where
  "reshape a data =
     (case get_property data ''daily_units'' of
        Inl e \<Rightarrow> Inl e
      | Inr u \<Rightarrow>
          (case get_property data ''daily'' of
             Inl e \<Rightarrow> Inl e
           | Inr d \<Rightarrow> Inr (Forecast ''open-meteo'' (query a) (or_null u) (or_null d))))"

text \<open>Lines 108 to 126: what the \<^verbatim>\<open>try\<close> block does with a response.\<close>

definition on_response :: "weather_args \<Rightarrow> response \<Rightarrow> js_thrown + weather_result" where
  "on_response a resp =
     (if \<not> ok resp
      then Inl (ErrorObj (''Weather API error: '' @ string_of_nat (http_status resp) @
                          '' '' @ statusText resp))
      else (case json resp of
              JsonRejected e \<Rightarrow> Inl e
            | JsonParsed data \<Rightarrow> reshape a data))"

text \<open>
  The \<^verbatim>\<open>try\<close> block. The first component lists the URLs the block has requested
  with \<^verbatim>\<open>fetch\<close>, in order.
\<close>

definition weather_try ::
  "(real \<Rightarrow> string) \<Rightarrow> fetch_env \<Rightarrow> weather_args \<Rightarrow> string list \<times> (js_thrown + weather_result)"
where
  "weather_try num fetch a =
     (case fetch (url num a) of
        FetchRejected e \<Rightarrow> ([url num a], Inl e)
      | Responded resp \<Rightarrow> ([url num a], on_response a resp))"

text \<open>Lines 127 to 135: the \<^verbatim>\<open>catch\<close> block.\<close>

definition weather_catch :: "js_thrown \<Rightarrow> weather_result" where
  "weather_catch e =
     WeatherError (case e of ErrorObj m \<Rightarrow> m
                   | NonError \<Rightarrow> ''Checking weather failed due to an unknown error.'')"

text \<open>\<^verbatim>\<open>weatherTool.execute\<close>, with the requests it made.\<close>

definition weatherTool_execute ::
  "(real \<Rightarrow> string) \<Rightarrow> fetch_env \<Rightarrow> weather_args \<Rightarrow> string list \<times> (js_thrown + weather_result)"
where
  "weatherTool_execute num fetch a =
     (case weather_try num fetch a of
        (reqs, Inr r) \<Rightarrow> (reqs, Inr r)
      | (reqs, Inl e) \<Rightarrow> (reqs, Inr (weather_catch e)))"

subsection \<open>The parameter schema (lines 53 to 87)\<close>

text \<open>
  The tool call's arguments as they arrive, parsed from JSON: each key is missing or
  holds a JSON value. The schema library reports the first check that fails.
\<close>

record tool_input =
  in_latitude :: "json_value option"
  in_longitude :: "json_value option"
  in_forecast_days :: "json_value option"
  in_daily :: "json_value option"

datatype zod_issue = InvalidType | TooSmall | TooBig | InvalidEnumValue

text \<open>\<^verbatim>\<open>z.number().min(lo).max(hi)\<close>\<close>

definition z_number :: "real \<Rightarrow> real \<Rightarrow> json_value option \<Rightarrow> zod_issue + real" where
  "z_number lo hi v =
     (case v of
        Some (JNum x) \<Rightarrow>
          if x < lo then Inl TooSmall else if hi < x then Inl TooBig else Inr x
      | _ \<Rightarrow> Inl InvalidType)"

text \<open>\<^verbatim>\<open>z.number().int().min(1).max(7).default(3)\<close>\<close>

definition z_forecast_days :: "json_value option \<Rightarrow> zod_issue + int" where
  "z_forecast_days v =
     (case v of
        None \<Rightarrow> Inr 3
      | Some (JNum x) \<Rightarrow>
          if of_int \<lfloor>x\<rfloor> \<noteq> x then Inl InvalidType
          else if x < 1 then Inl TooSmall
          else if 7 < x then Inl TooBig
          else Inr \<lfloor>x\<rfloor>
      | Some _ \<Rightarrow> Inl InvalidType)"

text \<open>The \<^verbatim>\<open>z.enum\<close> of lines 75 to 81.\<close>

definition daily_enum :: "string list" where
  "daily_enum =
     [''temperature_2m_max'', ''temperature_2m_min'', ''precipitation_sum'',
      ''windspeed_10m_max'', ''weathercode'']"

definition z_enum :: "json_value \<Rightarrow> zod_issue + string" where
  "z_enum v =
     (case v of
        JStr s \<Rightarrow> if s \<in> set daily_enum then Inr s else Inl InvalidEnumValue
      | _ \<Rightarrow> Inl InvalidType)"

fun z_array :: "json_value list \<Rightarrow> zod_issue + string list" where
  "z_array [] = Inr []"
| "z_array (v # vs) =
     (case z_enum v of
        Inl e \<Rightarrow> Inl e
      | Inr s \<Rightarrow> (case z_array vs of Inl e \<Rightarrow> Inl e | Inr ss \<Rightarrow> Inr (s # ss)))"

text \<open>\<^verbatim>\<open>z.array(z.enum([...])).optional()\<close>\<close>

definition z_daily :: "json_value option \<Rightarrow> zod_issue + string list option" where
  "z_daily v =
     (case v of
        None \<Rightarrow> Inr None
      | Some (JArr xs) \<Rightarrow> (case z_array xs of Inl e \<Rightarrow> Inl e | Inr ss \<Rightarrow> Inr (Some ss))
      | Some _ \<Rightarrow> Inl InvalidType)"

text \<open>\<^verbatim>\<open>weatherTool.parameters\<close>: the object schema, key by key.\<close>

definition parameters :: "tool_input \<Rightarrow> zod_issue + weather_args" where
  "parameters i =
     (case z_number (- 90) 90 (in_latitude i) of
        Inl e \<Rightarrow> Inl e
      | Inr lat \<Rightarrow>
     (case z_number (- 180) 180 (in_longitude i) of
        Inl e \<Rightarrow> Inl e
      | Inr lon \<Rightarrow>
     (case z_forecast_days (in_forecast_days i) of
        Inl e \<Rightarrow> Inl e
      | Inr d \<Rightarrow>
     (case z_daily (in_daily i) of
        Inl e \<Rightarrow> Inl e
      | Inr vs \<Rightarrow>
          Inr \<lparr>latitude = lat, longitude = lon, forecast_days = Some d, daily = vs\<rparr>))))"

datatype tool_call = InvalidToolArguments zod_issue | ToolResult "js_thrown + weather_result"

text \<open>
  Modelled from the spec: the orchestrator that registers the tool and calls it (the
  agent framework, which is not part of this repository). It invokes a tool "passing
  validated arguments" (section 6); a request that fails the schema is "rejected before
  execution by schema constraints" (section 7), so that \<^verbatim>\<open>execute\<close> does not run.
\<close>

definition call_weatherTool ::
  "(real \<Rightarrow> string) \<Rightarrow> fetch_env \<Rightarrow> tool_input \<Rightarrow> string list \<times> tool_call"
where
  "call_weatherTool num fetch i =
     (case parameters i of
        Inl issue \<Rightarrow> ([], InvalidToolArguments issue)
      | Inr a \<Rightarrow>
          (case weatherTool_execute num fetch a of (reqs, r) \<Rightarrow> (reqs, ToolResult r)))"

subsection \<open>Kinds of outcome of a call\<close>

text \<open>
  The outcomes of the two tools that are failures: for the script, a call that threw,
  reported an error or did not end with status 0; for the forecast, a request that was
  rejected (the network failed), a status outside 200 to 299, a body that is not JSON,
  and the JSON body \<^verbatim>\<open>null\<close>.
\<close>

definition analyze_failed :: "spawn_outcome \<Rightarrow> bool" where
  "analyze_failed out =
     (case out of Threw e \<Rightarrow> True
      | Returned r \<Rightarrow> error r \<noteq> None \<or> status r \<noteq> Some 0)"

definition is_null :: "json_value \<Rightarrow> bool" where
  "is_null v = (case v of JNull \<Rightarrow> True | _ \<Rightarrow> False)"

definition fetch_failed :: "fetch_outcome \<Rightarrow> bool" where
  "fetch_failed out =
     (case out of
        FetchRejected e \<Rightarrow> True
      | Responded resp \<Rightarrow>
          \<not> ok resp \<or>
          (case json resp of JsonRejected e \<Rightarrow> True | JsonParsed data \<Rightarrow> is_null data))"

section \<open>Concrete outcomes and requests\<close>

text \<open>An environment in which every call of \<^verbatim>\<open>spawnSync\<close> has the given outcome.\<close>

definition env_of :: "spawn_outcome \<Rightarrow> spawn_env" where
  "env_of out cmd args opts = out"

text \<open>The interpreter is not installed.\<close>

definition enoent_result :: spawn_result where
  "enoent_result =
     \<lparr>error = Some \<lparr>err_code = Some ''ENOENT'', err_message = ''spawnSync python ENOENT''\<rparr>,
      status = None, stdout = None, stderr = None\<rparr>"

text \<open>The script slept past the time limit and was killed.\<close>

definition timeout_result :: spawn_result where
  "timeout_result =
     \<lparr>error = Some \<lparr>err_code = Some ''ETIMEDOUT'',
                     err_message = ''spawnSync python ETIMEDOUT''\<rparr>,
      status = None, stdout = Some [], stderr = Some []\<rparr>"

text \<open>The script wrote more than the buffer holds and was killed.\<close>

definition overflow_result :: spawn_result where
  "overflow_result =
     \<lparr>error = Some \<lparr>err_code = Some ''ENOBUFS'', err_message = ''spawnSync python ENOBUFS''\<rparr>,
      status = None, stdout = Some ''xxxxxxxx'', stderr = Some []\<rparr>"

text \<open>
  The script wrote a little more than the buffer holds and had already exited, with status
  \<open>n\<close>, when the library read past the limit: the call reports both the error and the
  status.
\<close>

definition overflow_after_exit :: "int \<Rightarrow> spawn_result" where
  "overflow_after_exit n =
     \<lparr>error = Some \<lparr>err_code = Some ''ENOBUFS'', err_message = ''spawnSync python ENOBUFS''\<rparr>,
      status = Some n, stdout = Some ''xxxxxxxx'', stderr = Some []\<rparr>"

text \<open>The script raised an error: a traceback on standard error and status 1.\<close>

definition raised_result :: spawn_result where
  "raised_result =
     \<lparr>error = None, status = Some 1, stdout = Some ''7'',
      stderr = Some ''ZeroDivisionError: division by zero''\<rparr>"

text \<open>The script called \<^verbatim>\<open>sys.exit(2)\<close> and wrote nothing.\<close>

definition silent_exit_result :: spawn_result where
  "silent_exit_result = \<lparr>error = None, status = Some 2, stdout = Some [], stderr = Some []\<rparr>"

text \<open>The script wrote a number and ended.\<close>

definition hello_result :: spawn_result where
  "hello_result = \<lparr>error = None, status = Some 0, stdout = Some ''42'', stderr = Some []\<rparr>"

text \<open>A network in which every request has the given outcome.\<close>

definition fetch_always :: "fetch_outcome \<Rightarrow> fetch_env" where
  "fetch_always out u = out"

text \<open>A printer of numbers that knows the coordinates of Tokyo.\<close>

definition tokyo_num :: "real \<Rightarrow> string" where
  "tokyo_num x =
     (if x = 35.6762 then ''35.6762'' else if x = 139.6503 then ''139.6503'' else ''0'')"

definition tokyo_args :: weather_args where
  "tokyo_args = \<lparr>latitude = 35.6762, longitude = 139.6503, forecast_days = None, daily = None\<rparr>"

definition tokyo_body :: json_value where
  "tokyo_body =
     JObj [(''latitude'', JNum 35.7),
           (''daily_units'', JObj [(''time'', JStr ''iso8601''), (''weathercode'', JStr ''wmo code'')]),
           (''daily'', JObj [(''time'', JArr [JStr ''2025-01-01'']), (''weathercode'', JArr [JNum 3])])]"

definition tokyo_response :: response where
  "tokyo_response = \<lparr>http_status = 200, statusText = ''OK'', json = JsonParsed tokyo_body\<rparr>"

definition null_response :: response where
  "null_response = \<lparr>http_status = 200, statusText = ''OK'', json = JsonParsed JNull\<rparr>"

definition unavailable_response :: response where
  "unavailable_response =
     \<lparr>http_status = 503, statusText = ''Service Unavailable'',
      json = JsonRejected (ErrorObj ''Unexpected token'')\<rparr>"

text \<open>Tool calls with a latitude of 200, and with two and a half days.\<close>

definition far_north_input :: tool_input where
  "far_north_input =
     \<lparr>in_latitude = Some (JNum 200), in_longitude = Some (JNum 139.6503),
      in_forecast_days = None, in_daily = None\<rparr>"

definition half_day_input :: tool_input where
  "half_day_input =
     \<lparr>in_latitude = Some (JNum 35.6762), in_longitude = Some (JNum 139.6503),
      in_forecast_days = Some (JNum 2.5), in_daily = None\<rparr>"

definition tokyo_input :: tool_input where
  "tokyo_input =
     \<lparr>in_latitude = Some (JNum 35.6762), in_longitude = Some (JNum 139.6503),
      in_forecast_days = None, in_daily = None\<rparr>"

section \<open>Properties of the code analysis tool\<close>

subsection \<open>The paths through \<^verbatim>\<open>execute\<close>\<close>

lemma error_kinds:
  "error r \<noteq> None \<longleftrightarrow> could_not_start r \<or> timed_out r \<or> buffer_exceeded r"
  by (auto simp: could_not_start_def timed_out_def buffer_exceeded_def has_code_def
      split: option.splits)

lemma execute_returned:
  "run_python spawnSync code = Returned r \<Longrightarrow>
   analyzeTool_execute spawnSync code = Inr (analyze_returned r)"
  by (simp add: analyzeTool_execute_def analyze_try_def)

lemma execute_threw:
  "run_python spawnSync code = Threw e \<Longrightarrow>
   analyzeTool_execute spawnSync code = Inr (analyze_catch e)"
  by (simp add: analyzeTool_execute_def analyze_try_def)

lemma run_python_env_of: "run_python (env_of out) code = out"
  by (simp add: run_python_def env_of_def)

lemma returned_exit:
  assumes "error r = None"
  shows "analyze_returned r =
     (if status r \<noteq> Some 0
      then \<lparr>stdout_field = Present (stdout r),
            stderr_field = Present (Some (stderr_or_default (stderr r))),
            exitCode = Present (status_or (status r) (- 1)),
            error_field = Present ''Python script exited with error''\<rparr>
      else \<lparr>stdout_field = Present (stdout r), stderr_field = Present (stderr r),
            exitCode = Present 0, error_field = Absent\<rparr>)"
  using assms by (simp add: analyze_returned_def status_or_def)

lemma returned_error:
  assumes "error r = Some e"
  shows "analyze_returned r =
     only_error (if err_code e = Some ''ETIMEDOUT''
                 then ''Execution timed out (limit: 10 seconds)''
                 else ''Execution failed: '' @ err_message e)"
  using assms by (simp add: analyze_returned_def)

subsection \<open>The shape of the result\<close>

text \<open>
  Claim C1, as the code has it. Every call returns a result. When the call of
  \<^verbatim>\<open>spawnSync\<close> threw, or reported an error of any kind (the process could not be
  started, it ran past the time limit, or its output ran past the buffer), the result has
  no \<^verbatim>\<open>stdout\<close>, \<^verbatim>\<open>stderr\<close> or \<^verbatim>\<open>exitCode\<close> and its \<^verbatim>\<open>error\<close> is set. In every
  other case \<^verbatim>\<open>exitCode\<close> is set.
\<close>

theorem analyze_result_invariant:
  "\<exists>res. analyzeTool_execute spawnSync code = Inr res \<and>
     (case run_python spawnSync code of
        Threw e \<Rightarrow> is_only_error res
      | Returned r \<Rightarrow>
          (could_not_start r \<or> timed_out r \<or> buffer_exceeded r \<longrightarrow> is_only_error res) \<and>
          (\<not> (could_not_start r \<or> timed_out r \<or> buffer_exceeded r) \<longrightarrow>
             (\<exists>n. exitCode res = Present n)))"
proof (cases "run_python spawnSync code")
  case (Threw e)
  then show ?thesis
    by (simp add: execute_threw analyze_catch_def only_error_def is_only_error_def)
next
  case (Returned r)
  show ?thesis
  proof (cases "error r")
    case None
    then have "\<exists>n. exitCode (analyze_returned r) = Present n"
      by (simp add: returned_exit)
    with None Returned show ?thesis
      using error_kinds [of r] by (simp add: execute_returned)
  next
    case (Some err)
    then have "is_only_error (analyze_returned r)"
      by (simp add: returned_error only_error_def is_only_error_def)
    with Some Returned show ?thesis
      using error_kinds [of r] by (simp add: execute_returned)
  qed
qed

text \<open>
  The invariant at a missing interpreter (only \<^verbatim>\<open>error\<close>) and at a script that
  writes a number and ends (an exit status).
\<close>

theorem analyze_result_invariant_witness:
  "could_not_start enoent_result \<and>
   (\<exists>res. analyzeTool_execute (env_of (Returned enoent_result)) ''print(1)'' = Inr res \<and>
      is_only_error res) \<and>
   \<not> (could_not_start hello_result \<or> timed_out hello_result \<or> buffer_exceeded hello_result) \<and>
   (\<exists>res n. analyzeTool_execute (env_of (Returned hello_result)) ''print(1)'' = Inr res \<and>
      exitCode res = Present n)"
proof -
  have a: "could_not_start enoent_result"
    by (simp add: could_not_start_def timed_out_def buffer_exceeded_def has_code_def
        enoent_result_def)
  have b: "\<not> (could_not_start hello_result \<or> timed_out hello_result \<or>
     buffer_exceeded hello_result)"
    by (simp add: could_not_start_def timed_out_def buffer_exceeded_def has_code_def
        hello_result_def)
  show ?thesis
    using a b analyze_result_invariant [of "env_of (Returned enoent_result)" "''print(1)''"]
      analyze_result_invariant [of "env_of (Returned hello_result)" "''print(1)''"]
    by (auto simp: run_python_env_of)
qed

text \<open>
  Claim C1 as it is written fails for a script that writes more than the buffer holds:
  its process did start and the call did not time out, yet the result has no exit
  status, only the error of the library.
\<close>

theorem exit_status_missing_on_overflow:
  "run_python (env_of (Returned overflow_result)) ''print(1)'' = Returned overflow_result \<and>
   \<not> could_not_start overflow_result \<and> \<not> timed_out overflow_result \<and>
   analyzeTool_execute (env_of (Returned overflow_result)) ''print(1)'' =
     Inr \<lparr>stdout_field = Absent, stderr_field = Absent, exitCode = Absent,
          error_field = Present ''Execution failed: spawnSync python ENOBUFS''\<rparr>"
  by (simp add: execute_returned run_python_env_of analyze_returned_def overflow_result_def
      could_not_start_def timed_out_def buffer_exceeded_def has_code_def only_error_def)

subsection \<open>A script that exits with an error\<close>

text \<open>
  Claim C2, as the code has it. When the process started, the call did not time out, the
  output stayed within the buffer, and the process exited with a status \<open>n\<close> other than
  0, the result holds that status, the error \<^verbatim>\<open>Python script exited with error\<close>, the
  captured standard output, and the captured standard error, replaced by
  \<^verbatim>\<open>Unknown error occurred\<close> exactly when it is empty (or null).
\<close>

theorem nonzero_exit_result:
  assumes "run_python spawnSync code = Returned r"
    and "\<not> could_not_start r" and "\<not> timed_out r" and "\<not> buffer_exceeded r"
    and "status r = Some n" and "n \<noteq> 0"
  shows "analyzeTool_execute spawnSync code =
     Inr \<lparr>stdout_field = Present (stdout r),
          stderr_field = Present (Some (if stderr r = None \<or> stderr r = Some []
                                        then ''Unknown error occurred'' else the (stderr r))),
          exitCode = Present n,
          error_field = Present ''Python script exited with error''\<rparr>"
proof -
  from assms(2-4) have "error r = None"
    using error_kinds [of r] by blast
  with assms(1,5,6) show ?thesis
    by (auto simp: execute_returned returned_exit status_or_def stderr_or_default_def
        split: option.splits)
qed

text \<open>
  A script that divides by zero keeps its traceback; one that calls \<^verbatim>\<open>sys.exit(2)\<close>
  and writes nothing gets the generic text.
\<close>

theorem nonzero_exit_result_witness:
  "\<not> could_not_start raised_result \<and> \<not> timed_out raised_result \<and>
   \<not> buffer_exceeded raised_result \<and>
   analyzeTool_execute (env_of (Returned raised_result)) ''import sys; sys.stdout.write(str(7)); 1 / 0'' =
     Inr \<lparr>stdout_field = Present (Some ''7''),
          stderr_field = Present (Some ''ZeroDivisionError: division by zero''),
          exitCode = Present 1,
          error_field = Present ''Python script exited with error''\<rparr> \<and>
   analyzeTool_execute (env_of (Returned silent_exit_result)) ''import sys; sys.exit(2)'' =
     Inr \<lparr>stdout_field = Present (Some []),
          stderr_field = Present (Some ''Unknown error occurred''),
          exitCode = Present 2,
          error_field = Present ''Python script exited with error''\<rparr>"
  using nonzero_exit_result [of "env_of (Returned raised_result)" "''import sys; sys.stdout.write(str(7)); 1 / 0''"
      raised_result 1]
    nonzero_exit_result [of "env_of (Returned silent_exit_result)"
      "''import sys; sys.exit(2)''" silent_exit_result 2]
  by (simp add: run_python_env_of could_not_start_def timed_out_def buffer_exceeded_def
      has_code_def raised_result_def silent_exit_result_def)

text \<open>
  Claim C2 as it is written fails in two places. It names the error
  \<^verbatim>\<open>script exited with error\<close>, and the script that divides by zero gets another
  string. And a script that exits with status 3 after writing more than the buffer holds
  started and did not time out, yet its result has neither output nor exit status.
\<close>

theorem nonzero_exit_message_counterexample:
  "\<not> could_not_start raised_result \<and> \<not> timed_out raised_result \<and>
   status raised_result = Some 1 \<and>
   analyzeTool_execute (env_of (Returned raised_result))
       ''import sys; sys.stdout.write(str(7)); 1 / 0'' =
     Inr \<lparr>stdout_field = Present (Some ''7''),
          stderr_field = Present (Some ''ZeroDivisionError: division by zero''),
          exitCode = Present 1,
          error_field = Present ''Python script exited with error''\<rparr> \<and>
   ''Python script exited with error'' \<noteq> ''script exited with error'' \<and>
   \<not> could_not_start (overflow_after_exit 3) \<and> \<not> timed_out (overflow_after_exit 3) \<and>
   status (overflow_after_exit 3) = Some 3 \<and>
   analyzeTool_execute (env_of (Returned (overflow_after_exit 3)))
       ''import sys; print(chr(120) * 10486000); sys.exit(3)'' =
     Inr \<lparr>stdout_field = Absent, stderr_field = Absent, exitCode = Absent,
          error_field = Present ''Execution failed: spawnSync python ENOBUFS''\<rparr>"
  by (simp add: execute_returned run_python_env_of returned_exit returned_error
      raised_result_def overflow_after_exit_def could_not_start_def timed_out_def
      buffer_exceeded_def has_code_def status_or_def stderr_or_default_def only_error_def)

subsection \<open>A script that runs past the time limit\<close>

text \<open>
  Claim C3, with the message of the code. The call asks the library for a limit of
  10 * 1000 milliseconds. When the library reports that the limit passed, the only key of
  the result is \<^verbatim>\<open>error\<close>, equal to \<^verbatim>\<open>Execution timed out (limit: 10 seconds)\<close>, which
  contains \<^verbatim>\<open>timed out\<close>.
\<close>

theorem timeout_result_shape:
  assumes "run_python spawnSync code = Returned r" and "timed_out r"
  shows "analyzeTool_execute spawnSync code =
     Inr \<lparr>stdout_field = Absent, stderr_field = Absent, exitCode = Absent,
          error_field = Present ''Execution timed out (limit: 10 seconds)''\<rparr> \<and>
     sublist ''timed out'' ''Execution timed out (limit: 10 seconds)'' \<and>
     run_python spawnSync code =
       spawnSync ''python'' [''-c'', ''import sys; exec(sys.stdin.read())'']
         \<lparr>input = code, encoding = ''utf-8'', timeout = 10 * 1000,
          maxBuffer = 10 * 1024 * 1024\<rparr>"
proof -
  from assms(2) obtain e where e: "error r = Some e" "err_code e = Some ''ETIMEDOUT''"
    by (auto simp: timed_out_def has_code_def split: option.splits)
  have "''Execution timed out (limit: 10 seconds)'' =
      ''Execution '' @ ''timed out'' @ '' (limit: 10 seconds)''"
    by simp
  then have s: "sublist ''timed out'' ''Execution timed out (limit: 10 seconds)''"
    unfolding sublist_def by blast
  from e assms(1) show ?thesis
    using s by (simp add: execute_returned returned_error only_error_def run_python_def)
qed

theorem timeout_result_shape_witness:
  "timed_out timeout_result \<and>
   analyzeTool_execute (env_of (Returned timeout_result)) ''import time; time.sleep(11)'' =
     Inr \<lparr>stdout_field = Absent, stderr_field = Absent, exitCode = Absent,
          error_field = Present ''Execution timed out (limit: 10 seconds)''\<rparr>"
proof -
  have t: "timed_out timeout_result"
    by (simp add: timed_out_def has_code_def timeout_result_def)
  show ?thesis
    using t timeout_result_shape [of "env_of (Returned timeout_result)"
        "''import time; time.sleep(11)''" timeout_result]
    by (simp add: run_python_env_of)
qed

text \<open>
  Claim C3 as it is written names the error \<^verbatim>\<open>execution timed out (limit: 10 seconds)\<close>,
  in lower case; the string of the code starts with a capital letter.
\<close>

theorem timeout_message_counterexample:
  "timed_out timeout_result \<and>
   analyzeTool_execute (env_of (Returned timeout_result)) ''import time; time.sleep(11)'' =
     Inr \<lparr>stdout_field = Absent, stderr_field = Absent, exitCode = Absent,
          error_field = Present ''Execution timed out (limit: 10 seconds)''\<rparr> \<and>
   ''Execution timed out (limit: 10 seconds)'' \<noteq> ''execution timed out (limit: 10 seconds)''"
  by (simp add: execute_returned run_python_env_of returned_error timeout_result_def
      timed_out_def has_code_def only_error_def)

subsection \<open>A script that ends with status 0\<close>

text \<open>
  Claim C4, as the code has it. When the process started, the call did not time out, the
  output stayed within the buffer, and the process exited with status 0, the result has
  the exit status 0, the standard output and the standard error exactly as the library
  captured them (an empty standard error stays empty) and no \<^verbatim>\<open>error\<close>.
\<close>

theorem zero_exit_result:
  assumes "run_python spawnSync code = Returned r"
    and "\<not> could_not_start r" and "\<not> timed_out r" and "\<not> buffer_exceeded r"
    and "status r = Some 0"
  shows "analyzeTool_execute spawnSync code =
     Inr \<lparr>stdout_field = Present (stdout r), stderr_field = Present (stderr r),
          exitCode = Present 0, error_field = Absent\<rparr>"
proof -
  from assms(2-4) have "error r = None"
    using error_kinds [of r] by blast
  with assms(1,5) show ?thesis
    by (simp add: execute_returned returned_exit)
qed

theorem zero_exit_result_witness:
  "\<not> could_not_start hello_result \<and> \<not> timed_out hello_result \<and>
   \<not> buffer_exceeded hello_result \<and> status hello_result = Some 0 \<and>
   analyzeTool_execute (env_of (Returned hello_result)) ''import sys; sys.stdout.write(str(6 * 7))'' =
     Inr \<lparr>stdout_field = Present (Some ''42''), stderr_field = Present (Some []),
          exitCode = Present 0, error_field = Absent\<rparr>"
  using zero_exit_result [of "env_of (Returned hello_result)" "''import sys; sys.stdout.write(str(6 * 7))''"
      hello_result]
  by (simp add: run_python_env_of could_not_start_def timed_out_def buffer_exceeded_def
      has_code_def hello_result_def)

text \<open>
  Claim C4 as it is written fails for a script that exits with status 0 after writing
  more than the buffer holds: it started and did not time out, yet the result is the
  error of the library, with neither output nor exit status.
\<close>

theorem zero_exit_overflow_counterexample:
  "\<not> could_not_start (overflow_after_exit 0) \<and> \<not> timed_out (overflow_after_exit 0) \<and>
   status (overflow_after_exit 0) = Some 0 \<and>
   analyzeTool_execute (env_of (Returned (overflow_after_exit 0)))
       ''print(chr(120) * 10486000)'' =
     Inr \<lparr>stdout_field = Absent, stderr_field = Absent, exitCode = Absent,
          error_field = Present ''Execution failed: spawnSync python ENOBUFS''\<rparr>"
  by (simp add: execute_returned run_python_env_of returned_error overflow_after_exit_def
      could_not_start_def timed_out_def buffer_exceeded_def has_code_def only_error_def)

subsection \<open>A script that writes more than the buffer holds\<close>

text \<open>
  Claim C9. The call asks the library for a buffer of 10 * 1024 * 1024 bytes. When the
  library reports that the output ran past it, the call returns, and the only key of the
  result is \<^verbatim>\<open>error\<close>, holding the message of the library after
  \<^verbatim>\<open>Execution failed:\<close>: no part of the output is passed on.
\<close>

theorem buffer_exceeded_result:
  assumes "run_python spawnSync code = Returned r" and "buffer_exceeded r"
  shows "\<exists>e. error r = Some e \<and>
     analyzeTool_execute spawnSync code =
       Inr \<lparr>stdout_field = Absent, stderr_field = Absent, exitCode = Absent,
            error_field = Present (''Execution failed: '' @ err_message e)\<rparr> \<and>
     run_python spawnSync code =
       spawnSync ''python'' [''-c'', ''import sys; exec(sys.stdin.read())'']
         \<lparr>input = code, encoding = ''utf-8'', timeout = 10 * 1000,
          maxBuffer = 10 * 1024 * 1024\<rparr>"
proof -
  from assms(2) obtain e where e: "error r = Some e" "err_code e = Some ''ENOBUFS''"
    by (auto simp: buffer_exceeded_def has_code_def split: option.splits)
  with assms(1) show ?thesis
    by (simp add: execute_returned returned_error only_error_def run_python_def)
qed

theorem buffer_exceeded_result_witness:
  "buffer_exceeded overflow_result \<and>
   analyzeTool_execute (env_of (Returned overflow_result)) ''print(chr(120) * 20000000)'' =
     Inr \<lparr>stdout_field = Absent, stderr_field = Absent, exitCode = Absent,
          error_field = Present ''Execution failed: spawnSync python ENOBUFS''\<rparr>"
proof -
  have b: "buffer_exceeded overflow_result"
    by (simp add: buffer_exceeded_def has_code_def overflow_result_def)
  show ?thesis
    using b buffer_exceeded_result [of "env_of (Returned overflow_result)"
        "''print(chr(120) * 20000000)''" overflow_result]
    by (auto simp: run_python_env_of overflow_result_def)
qed

section \<open>Properties of the weather tool\<close>

subsection \<open>The paths through \<^verbatim>\<open>execute\<close>\<close>

lemma execute_requests: "fst (weatherTool_execute num fetch a) = [url num a]"
  by (simp add: weatherTool_execute_def weather_try_def
      split: fetch_outcome.splits sum.splits prod.splits)

lemma execute_rejected:
  "fetch (url num a) = FetchRejected e \<Longrightarrow>
   snd (weatherTool_execute num fetch a) = Inr (weather_catch e)"
  by (simp add: weatherTool_execute_def weather_try_def)

lemma execute_responded:
  "fetch (url num a) = Responded resp \<Longrightarrow>
   snd (weatherTool_execute num fetch a) =
     Inr (case on_response a resp of Inl e \<Rightarrow> weather_catch e | Inr r \<Rightarrow> r)"
  by (simp add: weatherTool_execute_def weather_try_def split: sum.splits)

lemma get_property_not_null:
  "\<not> is_null data \<Longrightarrow> \<exists>v. get_property data k = Inr v"
  by (cases data) (simp_all add: is_null_def)

lemma get_property_null:
  "is_null data \<Longrightarrow> get_property data k = Inl (ErrorObj (null_read_message k))"
  by (cases data) (simp_all add: is_null_def)

lemma weather_catch_error: "\<exists>msg. weather_catch e = WeatherError msg"
  by (simp add: weather_catch_def)

lemma urlencode_keys:
  "urlencode ''latitude'' = ''latitude''"
  "urlencode ''longitude'' = ''longitude''"
  "urlencode ''forecast_days'' = ''forecast_days''"
  "urlencode ''timezone'' = ''timezone''"
  "urlencode ''daily'' = ''daily''"
  "urlencode ''auto'' = ''auto''"
  by (simp_all add: urlencode_def urlencode_byte_def form_safe_def)

lemma url_eq:
  "url num a =
     ''https://api.open-meteo.com/v1/forecast?latitude='' @ urlencode (num (latitude a)) @
     ''&longitude='' @ urlencode (num (longitude a)) @
     ''&forecast_days='' @ urlencode (string_of_int (days_or_default (forecast_days a))) @
     ''&timezone=auto&daily='' @ urlencode (array_join '','' (dailyVars (daily a)))"
  by (simp add: url_def params_def URLSearchParams_toString_def urlencode_keys)

lemma failed_gives_error:
  assumes "fetch_failed (fetch (url num a))"
  shows "\<exists>msg. snd (weatherTool_execute num fetch a) = Inr (WeatherError msg)"
proof (cases "fetch (url num a)")
  case (FetchRejected e)
  then show ?thesis by (simp add: execute_rejected weather_catch_error)
next
  case (Responded resp)
  have "\<exists>e. on_response a resp = Inl e"
  proof (cases "ok resp")
    case False
    then show ?thesis by (simp add: on_response_def)
  next
    case True
    with assms Responded show ?thesis
      by (auto simp: fetch_failed_def on_response_def reshape_def get_property_null
          split: json_outcome.splits)
  qed
  with Responded show ?thesis
    by (auto simp: execute_responded weather_catch_error)
qed

lemma succeeded_gives_forecast:
  assumes "\<not> fetch_failed (fetch (url num a))"
  shows "\<exists>resp data u d. fetch (url num a) = Responded resp \<and> ok resp \<and>
     json resp = JsonParsed data \<and>
     get_property data ''daily_units'' = Inr u \<and> get_property data ''daily'' = Inr d \<and>
     snd (weatherTool_execute num fetch a) =
       Inr (Forecast ''open-meteo'' (query a) (or_null u) (or_null d))"
proof -
  from assms obtain resp data where r: "fetch (url num a) = Responded resp" "ok resp"
      "json resp = JsonParsed data" "\<not> is_null data"
    by (auto simp: fetch_failed_def split: fetch_outcome.splits json_outcome.splits)
  from r(4) obtain u d where p: "get_property data ''daily_units'' = Inr u"
      "get_property data ''daily'' = Inr d"
    using get_property_not_null by blast
  with r show ?thesis
    by (simp add: execute_responded on_response_def reshape_def)
qed

lemma tokyo_url:
  "url tokyo_num tokyo_args =
     ''https://api.open-meteo.com/v1/forecast?latitude=35.6762&longitude=139.6503&forecast_days=3&timezone=auto&daily=temperature_2m_max%2Ctemperature_2m_min%2Cprecipitation_sum%2Cwindspeed_10m_max%2Cweathercode''"
  by (simp add: url_eq tokyo_num_def tokyo_args_def days_or_default_def dailyVars_def
      DEFAULT_DAILY_VARS_def string_of_int_def string_of_nat.simps digit_char_def
      urlencode_def urlencode_byte_def form_safe_def)

lemma tokyo_fetch_ok: "\<not> fetch_failed (Responded tokyo_response)"
  by (simp add: fetch_failed_def tokyo_response_def ok_def tokyo_body_def is_null_def)

lemma unavailable_failed: "fetch_failed (Responded unavailable_response)"
  by (simp add: fetch_failed_def unavailable_response_def ok_def)

subsection \<open>The request and the reshaped response\<close>

text \<open>
  Claim C6, as the code has it. For every request the tool makes exactly one GET, to the
  forecast URL whose query string holds the latitude, the longitude, the number of days,
  \<^verbatim>\<open>timezone=auto\<close> and the variables joined by commas (each value form-urlencoded).
  When the status is in 200 to 299 and the body parses to a JSON value other than
  \<^verbatim>\<open>null\<close>, the result is the source \<^verbatim>\<open>open-meteo\<close>, the query (latitude, longitude,
  the number of days and the variables in effect), and the \<^verbatim>\<open>daily_units\<close> and
  \<^verbatim>\<open>daily\<close> of the body, each \<^verbatim>\<open>null\<close> when the body has none. In every other case
  (the request was rejected, another status, a body that is not JSON, the body
  \<^verbatim>\<open>null\<close>) the result is an error.
\<close>

theorem forecast_request_and_result:
  "fst (weatherTool_execute num fetch a) = [url num a] \<and>
   url num a =
     ''https://api.open-meteo.com/v1/forecast?latitude='' @ urlencode (num (latitude a)) @
     ''&longitude='' @ urlencode (num (longitude a)) @
     ''&forecast_days='' @ urlencode (string_of_int (days_or_default (forecast_days a))) @
     ''&timezone=auto&daily='' @ urlencode (array_join '','' (dailyVars (daily a))) \<and>
   (fetch_failed (fetch (url num a)) \<longrightarrow>
      (\<exists>msg. snd (weatherTool_execute num fetch a) = Inr (WeatherError msg))) \<and>
   (\<not> fetch_failed (fetch (url num a)) \<longrightarrow>
      (\<exists>resp data u d. fetch (url num a) = Responded resp \<and> ok resp \<and>
         json resp = JsonParsed data \<and>
         get_property data ''daily_units'' = Inr u \<and> get_property data ''daily'' = Inr d \<and>
         snd (weatherTool_execute num fetch a) =
           Inr (Forecast ''open-meteo''
                  \<lparr>query_latitude = latitude a, query_longitude = longitude a,
                   query_forecast_days = days_or_default (forecast_days a),
                   query_daily = dailyVars (daily a)\<rparr>
                  (or_null u) (or_null d))))"
  using execute_requests [of num fetch a] url_eq [of num a]
    failed_gives_error [of fetch num a] succeeded_gives_forecast [of fetch num a]
  by (simp add: query_def)

text \<open>
  A request for Tokyo with both optional arguments left out: the answer of the provider
  is reshaped, and a 503 becomes an error.
\<close>

theorem forecast_request_and_result_witness:
  "\<not> fetch_failed (fetch_always (Responded tokyo_response) (url tokyo_num tokyo_args)) \<and>
   weatherTool_execute tokyo_num (fetch_always (Responded tokyo_response)) tokyo_args =
     ([''https://api.open-meteo.com/v1/forecast?latitude=35.6762&longitude=139.6503&forecast_days=3&timezone=auto&daily=temperature_2m_max%2Ctemperature_2m_min%2Cprecipitation_sum%2Cwindspeed_10m_max%2Cweathercode''],
      Inr (Forecast ''open-meteo''
             \<lparr>query_latitude = 35.6762, query_longitude = 139.6503, query_forecast_days = 3,
              query_daily = [''temperature_2m_max'', ''temperature_2m_min'',
                ''precipitation_sum'', ''windspeed_10m_max'', ''weathercode'']\<rparr>
             (JObj [(''time'', JStr ''iso8601''), (''weathercode'', JStr ''wmo code'')])
             (JObj [(''time'', JArr [JStr ''2025-01-01'']), (''weathercode'', JArr [JNum 3])]))) \<and>
   fetch_failed (fetch_always (Responded unavailable_response) (url tokyo_num tokyo_args)) \<and>
   (\<exists>msg. snd (weatherTool_execute tokyo_num (fetch_always (Responded unavailable_response))
       tokyo_args) = Inr (WeatherError msg))"
proof -
  let ?good = "fetch_always (Responded tokyo_response)"
  let ?bad = "fetch_always (Responded unavailable_response)"
  have g: "\<not> fetch_failed (?good (url tokyo_num tokyo_args))"
    by (simp add: fetch_always_def tokyo_fetch_ok)
  have b: "fetch_failed (?bad (url tokyo_num tokyo_args))"
    by (simp add: fetch_always_def unavailable_failed)
  from g forecast_request_and_result [of tokyo_num ?good tokyo_args]
  have "weatherTool_execute tokyo_num ?good tokyo_args =
     ([url tokyo_num tokyo_args],
      Inr (Forecast ''open-meteo''
             \<lparr>query_latitude = 35.6762, query_longitude = 139.6503, query_forecast_days = 3,
              query_daily = [''temperature_2m_max'', ''temperature_2m_min'',
                ''precipitation_sum'', ''windspeed_10m_max'', ''weathercode'']\<rparr>
             (JObj [(''time'', JStr ''iso8601''), (''weathercode'', JStr ''wmo code'')])
             (JObj [(''time'', JArr [JStr ''2025-01-01'']), (''weathercode'', JArr [JNum 3])])))"
    by (auto simp: prod_eq_iff fetch_always_def tokyo_response_def tokyo_body_def or_null_def
        tokyo_args_def days_or_default_def dailyVars_def DEFAULT_DAILY_VARS_def)
  with g b forecast_request_and_result [of tokyo_num ?bad tokyo_args] show ?thesis
    by (simp add: tokyo_url)
qed

text \<open>
  Claim C6 as it is written promises the reshaped result for every response with a
  status in 200 to 299 and a body that parses. The JSON text \<^verbatim>\<open>null\<close> parses; reading
  \<^verbatim>\<open>daily_units\<close> of it throws, and the result is an error.
\<close>

theorem null_body_counterexample:
  "ok null_response \<and> json null_response = JsonParsed JNull \<and>
   weatherTool_execute tokyo_num (fetch_always (Responded null_response)) tokyo_args =
     ([''https://api.open-meteo.com/v1/forecast?latitude=35.6762&longitude=139.6503&forecast_days=3&timezone=auto&daily=temperature_2m_max%2Ctemperature_2m_min%2Cprecipitation_sum%2Cwindspeed_10m_max%2Cweathercode''],
      Inr (WeatherError ''Cannot read properties of null (reading 'daily_units')''))"
proof -
  have "snd (weatherTool_execute tokyo_num (fetch_always (Responded null_response)) tokyo_args) =
      Inr (WeatherError ''Cannot read properties of null (reading 'daily_units')'')"
    by (simp add: execute_responded fetch_always_def on_response_def ok_def null_response_def
        reshape_def weather_catch_def null_read_message_def)
  then show ?thesis
    using execute_requests [of tokyo_num "fetch_always (Responded null_response)" tokyo_args]
    by (simp add: prod_eq_iff tokyo_url ok_def null_response_def)
qed

subsection \<open>Defaults\<close>

lemma urlencode_three: "urlencode (string_of_int 3) = ''3''"
  by (simp add: string_of_int_def string_of_nat.simps digit_char_def urlencode_def
      urlencode_byte_def form_safe_def)

lemma urlencode_default_vars:
  "urlencode (array_join '','' DEFAULT_DAILY_VARS) =
     ''temperature_2m_max%2Ctemperature_2m_min%2Cprecipitation_sum%2Cwindspeed_10m_max%2Cweathercode''"
  by (simp add: DEFAULT_DAILY_VARS_def urlencode_def urlencode_byte_def form_safe_def
      digit_char_def)

lemma accepted_call:
  "parameters i = Inr b \<Longrightarrow>
   fst (call_weatherTool num fetch i) = fst (weatherTool_execute num fetch b)"
  by (simp add: call_weatherTool_def split: prod.splits)

lemma parameters_fields:
  assumes "parameters i = Inr b"
  shows "z_forecast_days (in_forecast_days i) = Inr (days_or_default (forecast_days b))"
  using assms
  by (auto simp: parameters_def days_or_default_def split: sum.splits)

text \<open>
  Claim C7. When the number of days is left out, the one GET that \<^verbatim>\<open>execute\<close> makes
  asks for \<^verbatim>\<open>forecast_days=3\<close>, and the query echoed in a reshaped result holds 3 days;
  a tool call without the key passes the schema with 3 days and makes the same request.
  When the variables are left out, the GET asks for \<^verbatim>\<open>temperature_2m_max\<close>,
  \<^verbatim>\<open>temperature_2m_min\<close>, \<^verbatim>\<open>precipitation_sum\<close>, \<^verbatim>\<open>windspeed_10m_max\<close> and
  \<^verbatim>\<open>weathercode\<close> (the comma of the list is written \<^verbatim>\<open>%2C\<close> in the query string),
  and the query echoed in a reshaped result holds these five.
\<close>

theorem omitted_arguments_default:
  "(forecast_days a = None \<longrightarrow>
      fst (weatherTool_execute num fetch a) =
        [''https://api.open-meteo.com/v1/forecast?latitude='' @ urlencode (num (latitude a)) @
         ''&longitude='' @ urlencode (num (longitude a)) @
         ''&forecast_days=3&timezone=auto&daily='' @
         urlencode (array_join '','' (dailyVars (daily a)))] \<and>
      (\<not> fetch_failed (fetch (url num a)) \<longrightarrow>
         (\<exists>q u d. snd (weatherTool_execute num fetch a) = Inr (Forecast ''open-meteo'' q u d) \<and>
            query_forecast_days q = 3)) \<and>
      query_forecast_days (query a) = 3 \<and>
      map_of (params num a) ''forecast_days'' = Some ''3'') \<and>
   (daily a = None \<longrightarrow>
      fst (weatherTool_execute num fetch a) =
        [''https://api.open-meteo.com/v1/forecast?latitude='' @ urlencode (num (latitude a)) @
         ''&longitude='' @ urlencode (num (longitude a)) @
         ''&forecast_days='' @ urlencode (string_of_int (days_or_default (forecast_days a))) @
         ''&timezone=auto&daily=temperature_2m_max%2Ctemperature_2m_min%2Cprecipitation_sum%2Cwindspeed_10m_max%2Cweathercode''] \<and>
      (\<not> fetch_failed (fetch (url num a)) \<longrightarrow>
         (\<exists>q u d. snd (weatherTool_execute num fetch a) = Inr (Forecast ''open-meteo'' q u d) \<and>
            query_daily q =
              [''temperature_2m_max'', ''temperature_2m_min'', ''precipitation_sum'',
           ''windspeed_10m_max'', ''weathercode''])) \<and>
      query_daily (query a) =
        [''temperature_2m_max'', ''temperature_2m_min'', ''precipitation_sum'',
           ''windspeed_10m_max'', ''weathercode''] \<and>
      map_of (params num a) ''daily'' =
        Some ''temperature_2m_max,temperature_2m_min,precipitation_sum,windspeed_10m_max,weathercode'') \<and>
   (in_forecast_days i = None \<longrightarrow>
      (\<forall>b. parameters i = Inr b \<longrightarrow>
         forecast_days b = Some 3 \<and>
         fst (call_weatherTool num fetch i) =
           [''https://api.open-meteo.com/v1/forecast?latitude='' @ urlencode (num (latitude b)) @
            ''&longitude='' @ urlencode (num (longitude b)) @
            ''&forecast_days=3&timezone=auto&daily='' @
            urlencode (array_join '','' (dailyVars (daily b)))]))"
proof (intro conjI impI allI)
  assume n: "forecast_days a = None"
  then show "fst (weatherTool_execute num fetch a) =
        [''https://api.open-meteo.com/v1/forecast?latitude='' @ urlencode (num (latitude a)) @
         ''&longitude='' @ urlencode (num (longitude a)) @
         ''&forecast_days=3&timezone=auto&daily='' @
         urlencode (array_join '','' (dailyVars (daily a)))]"
    by (simp add: execute_requests url_eq days_or_default_def urlencode_three)
  from n show "query_forecast_days (query a) = 3"
    by (simp add: query_def days_or_default_def)
  from n show "map_of (params num a) ''forecast_days'' = Some ''3''"
    by (simp add: params_def days_or_default_def string_of_int_def string_of_nat.simps
        digit_char_def)
  assume "\<not> fetch_failed (fetch (url num a))"
  then obtain u d where "snd (weatherTool_execute num fetch a) =
      Inr (Forecast ''open-meteo'' (query a) u d)"
    using succeeded_gives_forecast [of fetch num a] by blast
  with n show "\<exists>q u d. snd (weatherTool_execute num fetch a) =
      Inr (Forecast ''open-meteo'' q u d) \<and> query_forecast_days q = 3"
    by (simp add: query_def days_or_default_def)
next
  assume n: "daily a = None"
  then show "fst (weatherTool_execute num fetch a) =
        [''https://api.open-meteo.com/v1/forecast?latitude='' @ urlencode (num (latitude a)) @
         ''&longitude='' @ urlencode (num (longitude a)) @
         ''&forecast_days='' @ urlencode (string_of_int (days_or_default (forecast_days a))) @
         ''&timezone=auto&daily=temperature_2m_max%2Ctemperature_2m_min%2Cprecipitation_sum%2Cwindspeed_10m_max%2Cweathercode'']"
    by (simp add: execute_requests url_eq dailyVars_def urlencode_default_vars)
  from n show "query_daily (query a) =
        [''temperature_2m_max'', ''temperature_2m_min'', ''precipitation_sum'',
           ''windspeed_10m_max'', ''weathercode'']"
    by (simp add: query_def dailyVars_def DEFAULT_DAILY_VARS_def)
  from n show "map_of (params num a) ''daily'' =
        Some ''temperature_2m_max,temperature_2m_min,precipitation_sum,windspeed_10m_max,weathercode''"
    by (simp add: params_def dailyVars_def DEFAULT_DAILY_VARS_def)
  assume "\<not> fetch_failed (fetch (url num a))"
  then obtain u d where "snd (weatherTool_execute num fetch a) =
      Inr (Forecast ''open-meteo'' (query a) u d)"
    using succeeded_gives_forecast [of fetch num a] by blast
  with n show "\<exists>q u d. snd (weatherTool_execute num fetch a) =
      Inr (Forecast ''open-meteo'' q u d) \<and>
      query_daily q =
        [''temperature_2m_max'', ''temperature_2m_min'', ''precipitation_sum'',
           ''windspeed_10m_max'', ''weathercode'']"
    by (simp add: query_def dailyVars_def DEFAULT_DAILY_VARS_def)
next
  fix b
  assume n: "in_forecast_days i = None" and p: "parameters i = Inr b"
  from p n have d: "days_or_default (forecast_days b) = 3"
    using parameters_fields [of i b] by (simp add: z_forecast_days_def)
  from p n show "forecast_days b = Some 3"
    by (auto simp: parameters_def z_forecast_days_def split: sum.splits)
  from p d show "fst (call_weatherTool num fetch i) =
           [''https://api.open-meteo.com/v1/forecast?latitude='' @ urlencode (num (latitude b)) @
            ''&longitude='' @ urlencode (num (longitude b)) @
            ''&forecast_days=3&timezone=auto&daily='' @
            urlencode (array_join '','' (dailyVars (daily b)))]"
    by (simp add: accepted_call execute_requests url_eq urlencode_three)
qed

text \<open>
  A request for Tokyo with both optional arguments left out, made directly and as a tool
  call: three days and the five variables are requested and echoed.
\<close>

theorem omitted_arguments_default_witness:
  "forecast_days tokyo_args = None \<and> daily tokyo_args = None \<and>
   in_forecast_days tokyo_input = None \<and>
   \<not> fetch_failed (fetch_always (Responded tokyo_response) (url tokyo_num tokyo_args)) \<and>
   fst (weatherTool_execute tokyo_num (fetch_always (Responded tokyo_response)) tokyo_args) =
     [''https://api.open-meteo.com/v1/forecast?latitude=35.6762&longitude=139.6503&forecast_days=3&timezone=auto&daily=temperature_2m_max%2Ctemperature_2m_min%2Cprecipitation_sum%2Cwindspeed_10m_max%2Cweathercode''] \<and>
   (\<exists>q u d. snd (weatherTool_execute tokyo_num (fetch_always (Responded tokyo_response))
        tokyo_args) = Inr (Forecast ''open-meteo'' q u d) \<and>
      query_forecast_days q = 3) \<and>
   (\<exists>q u d. snd (weatherTool_execute tokyo_num (fetch_always (Responded tokyo_response))
        tokyo_args) = Inr (Forecast ''open-meteo'' q u d) \<and>
      query_daily q =
        [''temperature_2m_max'', ''temperature_2m_min'', ''precipitation_sum'',
           ''windspeed_10m_max'', ''weathercode'']) \<and>
   parameters tokyo_input =
     Inr \<lparr>latitude = 35.6762, longitude = 139.6503, forecast_days = Some 3, daily = None\<rparr> \<and>
   fst (call_weatherTool tokyo_num (fetch_always (Responded tokyo_response)) tokyo_input) =
     [''https://api.open-meteo.com/v1/forecast?latitude=35.6762&longitude=139.6503&forecast_days=3&timezone=auto&daily=temperature_2m_max%2Ctemperature_2m_min%2Cprecipitation_sum%2Cwindspeed_10m_max%2Cweathercode'']"
proof -
  let ?net = "fetch_always (Responded tokyo_response)"
  have p: "parameters tokyo_input =
     Inr \<lparr>latitude = 35.6762, longitude = 139.6503, forecast_days = Some 3, daily = None\<rparr>"
    by (simp add: parameters_def tokyo_input_def z_number_def z_forecast_days_def z_daily_def)
  have n: "forecast_days tokyo_args = None" "daily tokyo_args = None"
    "in_forecast_days tokyo_input = None"
    by (simp_all add: tokyo_args_def tokyo_input_def)
  have g: "\<not> fetch_failed (?net (url tokyo_num tokyo_args))"
    by (simp add: fetch_always_def tokyo_fetch_ok)
  have e: "urlencode (tokyo_num (latitude tokyo_args)) = ''35.6762''"
    "urlencode (tokyo_num (longitude tokyo_args)) = ''139.6503''"
    by (simp_all add: tokyo_args_def tokyo_num_def urlencode_def urlencode_byte_def
        form_safe_def)
  note t = omitted_arguments_default [of tokyo_args tokyo_num ?net tokyo_input]
  from t [THEN conjunct1] n(1,2)
  have s: "fst (weatherTool_execute tokyo_num ?net tokyo_args) =
     [''https://api.open-meteo.com/v1/forecast?latitude=35.6762&longitude=139.6503&forecast_days=3&timezone=auto&daily=temperature_2m_max%2Ctemperature_2m_min%2Cprecipitation_sum%2Cwindspeed_10m_max%2Cweathercode'']"
    by (simp add: e dailyVars_def urlencode_default_vars)
  from t [THEN conjunct1] n(1) g
  have d3: "\<exists>q u d. snd (weatherTool_execute tokyo_num ?net tokyo_args) =
      Inr (Forecast ''open-meteo'' q u d) \<and> query_forecast_days q = 3"
    by blast
  from t [THEN conjunct2, THEN conjunct1] n(2) g
  have d5: "\<exists>q u d. snd (weatherTool_execute tokyo_num ?net tokyo_args) =
      Inr (Forecast ''open-meteo'' q u d) \<and>
      query_daily q =
        [''temperature_2m_max'', ''temperature_2m_min'', ''precipitation_sum'',
           ''windspeed_10m_max'', ''weathercode'']"
    by blast
  from t [THEN conjunct2, THEN conjunct2] n(3) p
  have c: "fst (call_weatherTool tokyo_num ?net tokyo_input) =
     [''https://api.open-meteo.com/v1/forecast?latitude=35.6762&longitude=139.6503&forecast_days=3&timezone=auto&daily=temperature_2m_max%2Ctemperature_2m_min%2Cprecipitation_sum%2Cwindspeed_10m_max%2Cweathercode'']"
    by (simp add: tokyo_num_def urlencode_def urlencode_byte_def form_safe_def
        dailyVars_def DEFAULT_DAILY_VARS_def digit_char_def)
  from n p g s d3 d5 c show ?thesis by blast
qed

subsection \<open>An empty list of variables\<close>

lemma dailyVars_not_empty: "dailyVars d \<noteq> []"
  by (simp add: dailyVars_def DEFAULT_DAILY_VARS_def split: option.splits)

lemma dailyVars_cases:
  "daily a = Some (dailyVars (daily a)) \<or>
   ((daily a = None \<or> daily a = Some []) \<and>
    dailyVars (daily a) =
      [''temperature_2m_max'', ''temperature_2m_min'', ''precipitation_sum'',
           ''windspeed_10m_max'', ''weathercode''])"
  by (cases "daily a") (auto simp: dailyVars_def DEFAULT_DAILY_VARS_def)

text \<open>
  Claim C10. For a request with the empty list of variables, the one GET that
  \<^verbatim>\<open>execute\<close> makes asks for the five default variables, and the query echoed in a
  reshaped result holds these five; requests and result are those of the same request
  with the variables left out. No request reaches the provider with an empty list: the
  GET of any request asks for a list \<open>vs\<close> that is not empty, the list given when that
  is not empty, and the five default variables otherwise.
\<close>

theorem empty_daily_is_default:
  "fst (weatherTool_execute num fetch (a\<lparr>daily := Some []\<rparr>)) =
     [''https://api.open-meteo.com/v1/forecast?latitude='' @ urlencode (num (latitude a)) @
      ''&longitude='' @ urlencode (num (longitude a)) @
      ''&forecast_days='' @ urlencode (string_of_int (days_or_default (forecast_days a))) @
      ''&timezone=auto&daily=temperature_2m_max%2Ctemperature_2m_min%2Cprecipitation_sum%2Cwindspeed_10m_max%2Cweathercode''] \<and>
   (\<not> fetch_failed (fetch (url num (a\<lparr>daily := Some []\<rparr>))) \<longrightarrow>
      (\<exists>q u d. snd (weatherTool_execute num fetch (a\<lparr>daily := Some []\<rparr>)) =
           Inr (Forecast ''open-meteo'' q u d) \<and>
         query_daily q =
           [''temperature_2m_max'', ''temperature_2m_min'', ''precipitation_sum'',
           ''windspeed_10m_max'', ''weathercode''])) \<and>
   weatherTool_execute num fetch (a\<lparr>daily := Some []\<rparr>) =
     weatherTool_execute num fetch (a\<lparr>daily := None\<rparr>) \<and>
   (\<exists>vs. vs \<noteq> [] \<and>
      (daily a = Some vs \<or>
       ((daily a = None \<or> daily a = Some []) \<and>
        vs =
          [''temperature_2m_max'', ''temperature_2m_min'', ''precipitation_sum'',
           ''windspeed_10m_max'', ''weathercode''])) \<and>
      fst (weatherTool_execute num fetch a) =
        [''https://api.open-meteo.com/v1/forecast?latitude='' @ urlencode (num (latitude a)) @
         ''&longitude='' @ urlencode (num (longitude a)) @
         ''&forecast_days='' @ urlencode (string_of_int (days_or_default (forecast_days a))) @
         ''&timezone=auto&daily='' @ urlencode (array_join '','' vs)]) \<and>
   dailyVars (Some []) = dailyVars None \<and>
   dailyVars None =
     [''temperature_2m_max'', ''temperature_2m_min'', ''precipitation_sum'',
           ''windspeed_10m_max'', ''weathercode''] \<and>
   query_daily (query (a\<lparr>daily := Some []\<rparr>)) = dailyVars None \<and>
   map_of (params num (a\<lparr>daily := Some []\<rparr>)) ''daily'' =
     Some ''temperature_2m_max,temperature_2m_min,precipitation_sum,windspeed_10m_max,weathercode'' \<and>
   dailyVars (daily a) \<noteq> []"
proof -
  let ?e = "a\<lparr>daily := Some []\<rparr>"
  have d: "dailyVars (Some []) = dailyVars None"
    by (simp add: dailyVars_def)
  have u: "url num ?e = url num (a\<lparr>daily := None\<rparr>)"
    by (simp add: url_def params_def d)
  have q: "query ?e = query (a\<lparr>daily := None\<rparr>)"
    by (simp add: query_def d)
  have r: "reshape ?e = reshape (a\<lparr>daily := None\<rparr>)"
    by (rule ext) (simp only: reshape_def q)
  have o: "on_response ?e = on_response (a\<lparr>daily := None\<rparr>)"
    by (rule ext) (simp only: on_response_def r)
  have "weather_try num fetch ?e = weather_try num fetch (a\<lparr>daily := None\<rparr>)"
    by (simp only: weather_try_def u o)
  then have same: "weatherTool_execute num fetch ?e =
     weatherTool_execute num fetch (a\<lparr>daily := None\<rparr>)"
    by (simp add: weatherTool_execute_def)
  have sent: "fst (weatherTool_execute num fetch ?e) =
     [''https://api.open-meteo.com/v1/forecast?latitude='' @ urlencode (num (latitude a)) @
      ''&longitude='' @ urlencode (num (longitude a)) @
      ''&forecast_days='' @ urlencode (string_of_int (days_or_default (forecast_days a))) @
      ''&timezone=auto&daily=temperature_2m_max%2Ctemperature_2m_min%2Cprecipitation_sum%2Cwindspeed_10m_max%2Cweathercode'']"
    by (simp add: execute_requests url_eq dailyVars_def urlencode_default_vars)
  have echoed: "\<exists>q u d. snd (weatherTool_execute num fetch ?e) =
        Inr (Forecast ''open-meteo'' q u d) \<and>
      query_daily q =
        [''temperature_2m_max'', ''temperature_2m_min'', ''precipitation_sum'',
           ''windspeed_10m_max'', ''weathercode'']"
    if "\<not> fetch_failed (fetch (url num ?e))"
  proof -
    from that obtain u d where "snd (weatherTool_execute num fetch ?e) =
        Inr (Forecast ''open-meteo'' (query ?e) u d)"
      using succeeded_gives_forecast [of fetch num ?e] by blast
    then show ?thesis
      by (simp add: query_def dailyVars_def DEFAULT_DAILY_VARS_def)
  qed
  have every: "\<exists>vs. vs \<noteq> [] \<and>
      (daily a = Some vs \<or>
       ((daily a = None \<or> daily a = Some []) \<and>
        vs =
          [''temperature_2m_max'', ''temperature_2m_min'', ''precipitation_sum'',
           ''windspeed_10m_max'', ''weathercode''])) \<and>
      fst (weatherTool_execute num fetch a) =
        [''https://api.open-meteo.com/v1/forecast?latitude='' @ urlencode (num (latitude a)) @
         ''&longitude='' @ urlencode (num (longitude a)) @
         ''&forecast_days='' @ urlencode (string_of_int (days_or_default (forecast_days a))) @
         ''&timezone=auto&daily='' @ urlencode (array_join '','' vs)]"
    using dailyVars_not_empty [of "daily a"] dailyVars_cases [of a]
      execute_requests [of num fetch a] url_eq [of num a]
    by (intro exI [of _ "dailyVars (daily a)"]) simp
  from same sent echoed every show ?thesis
    using dailyVars_not_empty [of "daily a"]
    by (simp add: d query_def params_def dailyVars_def DEFAULT_DAILY_VARS_def)
qed

text \<open>
  A request for Tokyo with the empty list: the five variables are requested and echoed.
\<close>

theorem empty_daily_is_default_witness:
  "\<not> fetch_failed (fetch_always (Responded tokyo_response)
        (url tokyo_num (tokyo_args\<lparr>daily := Some []\<rparr>))) \<and>
   fst (weatherTool_execute tokyo_num (fetch_always (Responded tokyo_response))
        (tokyo_args\<lparr>daily := Some []\<rparr>)) =
     [''https://api.open-meteo.com/v1/forecast?latitude=35.6762&longitude=139.6503&forecast_days=3&timezone=auto&daily=temperature_2m_max%2Ctemperature_2m_min%2Cprecipitation_sum%2Cwindspeed_10m_max%2Cweathercode''] \<and>
   (\<exists>q u d. snd (weatherTool_execute tokyo_num (fetch_always (Responded tokyo_response))
        (tokyo_args\<lparr>daily := Some []\<rparr>)) = Inr (Forecast ''open-meteo'' q u d) \<and>
      query_daily q =
        [''temperature_2m_max'', ''temperature_2m_min'', ''precipitation_sum'',
           ''windspeed_10m_max'', ''weathercode''])"
proof -
  let ?net = "fetch_always (Responded tokyo_response)"
  have g: "\<not> fetch_failed (?net (url tokyo_num (tokyo_args\<lparr>daily := Some []\<rparr>)))"
    by (simp add: fetch_always_def tokyo_fetch_ok)
  have e: "urlencode (tokyo_num (latitude tokyo_args)) = ''35.6762''"
    "urlencode (tokyo_num (longitude tokyo_args)) = ''139.6503''"
    by (simp_all add: tokyo_args_def tokyo_num_def urlencode_def urlencode_byte_def
        form_safe_def)
  have l: "days_or_default (forecast_days tokyo_args) = 3"
    by (simp add: tokyo_args_def days_or_default_def)
  note t = empty_daily_is_default [of tokyo_num ?net tokyo_args]
  from t [THEN conjunct1]
  have s: "fst (weatherTool_execute tokyo_num ?net (tokyo_args\<lparr>daily := Some []\<rparr>)) =
     [''https://api.open-meteo.com/v1/forecast?latitude=35.6762&longitude=139.6503&forecast_days=3&timezone=auto&daily=temperature_2m_max%2Ctemperature_2m_min%2Cprecipitation_sum%2Cwindspeed_10m_max%2Cweathercode'']"
    by (simp add: e l urlencode_three)
  from t [THEN conjunct2, THEN conjunct1] g
  have "\<exists>q u d. snd (weatherTool_execute tokyo_num ?net
        (tokyo_args\<lparr>daily := Some []\<rparr>)) = Inr (Forecast ''open-meteo'' q u d) \<and>
      query_daily q =
        [''temperature_2m_max'', ''temperature_2m_min'', ''precipitation_sum'',
           ''windspeed_10m_max'', ''weathercode'']"
    by blast
  with g s show ?thesis by blast
qed

subsection \<open>Requests that the schema rejects\<close>

lemma z_number_rejects:
  assumes "v = Some (JNum x)" and "x < lo \<or> hi < x"
  shows "\<exists>e. z_number lo hi v = Inl e"
  using assms by (auto simp: z_number_def)

lemma z_forecast_days_rejects:
  assumes "v = Some (JNum x)" and "x < 1 \<or> 7 < x \<or> x \<notin> \<int>"
  shows "\<exists>e. z_forecast_days v = Inl e"
proof (cases "of_int \<lfloor>x\<rfloor> = x")
  case True
  then have "x \<in> \<int>" by (metis Ints_of_int)
  with assms True show ?thesis by (auto simp: z_forecast_days_def)
next
  case False
  with assms(1) show ?thesis by (simp add: z_forecast_days_def)
qed

lemma parameters_rejects:
  assumes "(\<exists>e. z_number (- 90) 90 (in_latitude i) = Inl e) \<or>
     (\<exists>e. z_number (- 180) 180 (in_longitude i) = Inl e) \<or>
     (\<exists>e. z_forecast_days (in_forecast_days i) = Inl e)"
  shows "\<exists>issue. parameters i = Inl issue"
  using assms by (auto simp: parameters_def split: sum.splits)

lemma rejected_call:
  "parameters i = Inl issue \<Longrightarrow>
   call_weatherTool num fetch i = ([], InvalidToolArguments issue)"
  by (simp add: call_weatherTool_def)

text \<open>
  Claim C8. A tool call whose latitude is a number outside -90 to 90, whose longitude is
  a number outside -180 to 180, or whose number of days is a number outside 1 to 7 or
  not an integer, fails the schema; the call ends with the issue, \<^verbatim>\<open>execute\<close> does
  not run and no request is made.
\<close>

theorem out_of_range_rejected:
  assumes "(\<exists>x. in_latitude i = Some (JNum x) \<and> (x < - 90 \<or> 90 < x)) \<or>
     (\<exists>x. in_longitude i = Some (JNum x) \<and> (x < - 180 \<or> 180 < x)) \<or>
     (\<exists>x. in_forecast_days i = Some (JNum x) \<and> (x < 1 \<or> 7 < x \<or> x \<notin> \<int>))"
  shows "\<exists>issue. parameters i = Inl issue \<and>
     call_weatherTool num fetch i = ([], InvalidToolArguments issue)"
proof -
  from assms have "(\<exists>e. z_number (- 90) 90 (in_latitude i) = Inl e) \<or>
     (\<exists>e. z_number (- 180) 180 (in_longitude i) = Inl e) \<or>
     (\<exists>e. z_forecast_days (in_forecast_days i) = Inl e)"
    using z_number_rejects z_forecast_days_rejects by metis
  then obtain issue where "parameters i = Inl issue"
    using parameters_rejects by blast
  then show ?thesis
    using rejected_call by blast
qed

text \<open>A latitude of 200 is too big, and two and a half days are not an integer.\<close>

theorem out_of_range_rejected_witness:
  "in_latitude far_north_input = Some (JNum 200) \<and> (90::real) < 200 \<and>
   call_weatherTool tokyo_num (fetch_always (Responded tokyo_response)) far_north_input =
     ([], InvalidToolArguments TooBig) \<and>
   in_forecast_days half_day_input = Some (JNum 2.5) \<and> (2.5::real) \<notin> \<int> \<and>
   call_weatherTool tokyo_num (fetch_always (Responded tokyo_response)) half_day_input =
     ([], InvalidToolArguments InvalidType)"
proof -
  let ?net = "fetch_always (Responded tokyo_response)"
  have a: "in_latitude far_north_input = Some (JNum 200)"
    by (simp add: far_north_input_def)
  have b: "in_forecast_days half_day_input = Some (JNum 2.5)"
    by (simp add: half_day_input_def)
  have c: "(2.5::real) \<notin> \<int>"
  proof
    assume "(2.5::real) \<in> \<int>"
    then have "of_int \<lfloor>2.5::real\<rfloor> = (2.5::real)" by (metis Ints_cases floor_of_int)
    then show False by simp
  qed
  have pa: "parameters far_north_input = Inl TooBig"
    by (simp add: parameters_def far_north_input_def z_number_def)
  have pb: "parameters half_day_input = Inl InvalidType"
    by (simp add: parameters_def half_day_input_def z_number_def z_forecast_days_def)
  from a have "\<exists>x. in_latitude far_north_input = Some (JNum x) \<and> (x < - 90 \<or> 90 < x)"
    by simp
  then have "\<exists>issue. parameters far_north_input = Inl issue \<and>
     call_weatherTool tokyo_num ?net far_north_input = ([], InvalidToolArguments issue)"
    using out_of_range_rejected [of far_north_input tokyo_num ?net] by blast
  with pa have ra: "call_weatherTool tokyo_num ?net far_north_input =
     ([], InvalidToolArguments TooBig)"
    by auto
  from b c have "\<exists>x. in_forecast_days half_day_input = Some (JNum x) \<and>
     (x < 1 \<or> 7 < x \<or> x \<notin> \<int>)"
    by blast
  then have "\<exists>issue. parameters half_day_input = Inl issue \<and>
     call_weatherTool tokyo_num ?net half_day_input = ([], InvalidToolArguments issue)"
    using out_of_range_rejected [of half_day_input tokyo_num ?net] by blast
  with pb have rb: "call_weatherTool tokyo_num ?net half_day_input =
     ([], InvalidToolArguments InvalidType)"
    by auto
  from a b c ra rb show ?thesis by simp
qed

section \<open>Failures of both tools stay inside the result\<close>

text \<open>
  Claim C5. For every script and every outcome of the call of \<^verbatim>\<open>spawnSync\<close>, and for
  every forecast request and every outcome of the GET, \<^verbatim>\<open>execute\<close> returns a result
  and throws nothing; in every failure (the call threw, reported an error or ended with
  a status other than 0; the request was rejected, had a status outside 200 to 299, or a
  body that is not JSON or is \<^verbatim>\<open>null\<close>) the result holds an error.
\<close>

theorem execute_never_throws:
  "(\<exists>res. analyzeTool_execute spawnSync code = Inr res \<and>
      (analyze_failed (run_python spawnSync code) \<longrightarrow>
         (\<exists>msg. error_field res = Present msg))) \<and>
   (\<exists>res. snd (weatherTool_execute num fetch a) = Inr res \<and>
      (fetch_failed (fetch (url num a)) \<longrightarrow> (\<exists>msg. res = WeatherError msg)))"
proof
  show "\<exists>res. analyzeTool_execute spawnSync code = Inr res \<and>
      (analyze_failed (run_python spawnSync code) \<longrightarrow> (\<exists>msg. error_field res = Present msg))"
  proof (cases "run_python spawnSync code")
    case (Threw e)
    then show ?thesis
      by (simp add: execute_threw analyze_catch_def only_error_def)
  next
    case (Returned r)
    then show ?thesis
      by (cases "error r")
        (auto simp: execute_returned analyze_failed_def returned_exit returned_error
          only_error_def)
  qed
next
  show "\<exists>res. snd (weatherTool_execute num fetch a) = Inr res \<and>
      (fetch_failed (fetch (url num a)) \<longrightarrow> (\<exists>msg. res = WeatherError msg))"
  proof (cases "fetch_failed (fetch (url num a))")
    case True
    then show ?thesis using failed_gives_error [of fetch num a] by auto
  next
    case False
    then show ?thesis using succeeded_gives_forecast [of fetch num a] by auto
  qed
qed

text \<open>
  A call of \<^verbatim>\<open>spawnSync\<close> that throws a value that is no \<^verbatim>\<open>Error\<close>, and a network
  that is down.
\<close>

theorem execute_never_throws_witness:
  "analyze_failed (run_python (env_of (Threw NonError)) ''print(1)'') \<and>
   (\<exists>res msg. analyzeTool_execute (env_of (Threw NonError)) ''print(1)'' = Inr res \<and>
      error_field res = Present msg) \<and>
   fetch_failed
     (fetch_always (FetchRejected (ErrorObj ''fetch failed'')) (url tokyo_num tokyo_args)) \<and>
   (\<exists>msg. snd (weatherTool_execute tokyo_num
       (fetch_always (FetchRejected (ErrorObj ''fetch failed''))) tokyo_args) =
     Inr (WeatherError msg))"
  using execute_never_throws [of "env_of (Threw NonError)" "''print(1)''" tokyo_num
      "fetch_always (FetchRejected (ErrorObj ''fetch failed''))" tokyo_args]
  by (auto simp: run_python_env_of analyze_failed_def fetch_failed_def fetch_always_def)

end
